theory Spec2Isabelle
  imports Complex_Main "HOL-Library.Sublist" "HOL-Library.AList" "HOL-Library.Product_Lexorder"
begin

section \<open>Python values used by the scripts\<close>

text \<open>
  Strings are lists of characters. Exceptions are values of \<open>py_error\<close>; a function that
  can raise returns \<open>py_error + 'a\<close> with \<open>Inl\<close> for the exception. An embedding vector
  is the list of its entries, each a number; what NumPy computes from such vectors in
  float32 is not computed here but taken from the environment (see \<open>env\<close>).
\<close>

datatype py_error =
    ApiError string
  | Exception string
  | IndexError
  | AxisError
  | ValueError
  | JSONDecodeError
  | AttributeError
  | KeyError
  | TypeError

type_synonym vec = "real list"

fun str_of_error :: "py_error \<Rightarrow> string" where
  "str_of_error (ApiError m) = m"
| "str_of_error (Exception m) = m"
| "str_of_error IndexError = ''list index out of range''"
| "str_of_error AxisError = ''axis 1 is out of bounds for array of dimension 1''"
| "str_of_error ValueError = ''shapes not aligned''"
| "str_of_error JSONDecodeError = ''Expecting value''"
| "str_of_error AttributeError = ''object has no attribute get''"
| "str_of_error KeyError = ''exam_relevance_score''"
| "str_of_error TypeError = ''can only concatenate str to str''"

definition lower_char :: "char \<Rightarrow> char" where
  "lower_char c =
     (case map_of (zip ''ABCDEFGHIJKLMNOPQRSTUVWXYZ'' ''abcdefghijklmnopqrstuvwxyz'') c of
        Some d \<Rightarrow> d
      | None \<Rightarrow> c)"

definition lower :: "string \<Rightarrow> string" where
  "lower s = map lower_char s"

fun startswith :: "string \<Rightarrow> string \<Rightarrow> bool" where
  "startswith s [] = True"
| "startswith [] (p # ps) = False"
| "startswith (c # cs) (p # ps) = (c = p \<and> startswith cs ps)"

text \<open>\<open>py_in sub s\<close> is Python's \<open>sub in s\<close> on strings.\<close>

fun py_in :: "string \<Rightarrow> string \<Rightarrow> bool" where
  "py_in sub [] = (sub = [])"
| "py_in sub (c # cs) = (startswith (c # cs) sub \<or> py_in sub cs)"

text \<open>
  Characters are code points below 256. \<open>is_space\<close> is \<open>str.isspace\<close> on one character,
  which is also what \<open>\s\<close> matches in a \<open>str\<close> pattern: tab, newline, vertical tab, form
  feed, carriage return, the separators 28 to 31, space, and the code points 133 and 160.
\<close>

definition is_space :: "char \<Rightarrow> bool" where
  "is_space c = (of_char c \<in> set [9, 10, 11, 12, 13, 28, 29, 30, 31, 32, 133, 160 :: nat])"

definition strip :: "string \<Rightarrow> string" where
  "strip s = rev (dropWhile is_space (rev (dropWhile is_space s)))"

text \<open>\<open>replace old new s\<close> is \<open>s.replace(old, new)\<close>: every occurrence, left to right.\<close>

function replace :: "string \<Rightarrow> string \<Rightarrow> string \<Rightarrow> string" where
  "replace old new [] = (if old = [] then new else [])"
| "replace old new (c # cs) =
     (if old = [] then new @ c # replace old new cs
      else if startswith (c # cs) old then new @ replace old new (drop (length old) (c # cs))
      else c # replace old new cs)"
  by pat_completeness auto
termination
  by (relation "measure (\<lambda>(old, new, s). length s)") auto

text \<open>\<open>join sep xs\<close> is \<open>sep.join(xs)\<close>.\<close>

fun join :: "string \<Rightarrow> string list \<Rightarrow> string" where
  "join sep [] = []"
| "join sep [x] = x"
| "join sep (x # y # ys) = x @ sep @ join sep (y # ys)"

section \<open>batch\_indexer.py\<close>

definition BATCH_SIZE :: nat where
  "BATCH_SIZE = 100"

record 'm chunk =
  chunk_id :: string
  chunk_text :: string
  chunk_metadata :: 'm

record 'm mapping_entry =
  me_id :: string
  me_text :: string
  me_metadata :: 'm
  embeddingIndex :: nat

record 'm index_state =
  ids :: "string list"
  embeddings :: "vec list"
  mapping :: "'m mapping_entry list"

text \<open>
  What one call of \<open>generate_batch_embeddings\<close> did: its result (the embeddings, or the
  exception it raised), the arguments of its \<open>time.sleep\<close> calls in order (seconds), and
  how many times it called the embedding service.
\<close>

record embed_run =
  result :: "py_error + vec list"
  sleeps :: "nat list"
  attempts :: nat

definition is_rate_limit :: "py_error \<Rightarrow> bool" where
  "is_rate_limit e =
     (let error_str = lower (str_of_error e)
      in py_in ''rate'' error_str \<or> py_in ''429'' error_str \<or> py_in ''quota'' error_str)"

text \<open>
  The loop \<open>for attempt in range(retries)\<close>. The embedding service is the function
  \<open>svc\<close>: \<open>svc a texts\<close> is what the call made in attempt \<open>a\<close> returns or raises.
  The fourth argument counts the iterations that remain.
\<close>

fun retry_loop ::
  "(nat \<Rightarrow> string list \<Rightarrow> py_error + vec list) \<Rightarrow> string list \<Rightarrow> nat \<Rightarrow> nat \<Rightarrow> nat \<Rightarrow>
   nat list \<Rightarrow> embed_run" where
  "retry_loop svc texts retries attempt 0 sl =
     \<lparr>result = Inl (Exception ''Failed after retries''), sleeps = sl, attempts = attempt\<rparr>"
| "retry_loop svc texts retries attempt (Suc n) sl =
     (case svc attempt texts of
        Inr vs \<Rightarrow> \<lparr>result = Inr vs, sleeps = sl, attempts = Suc attempt\<rparr>
      | Inl e \<Rightarrow>
          if is_rate_limit e then
            retry_loop svc texts retries (Suc attempt) n (sl @ [2 ^ (attempt + 1) * 1])
          else if attempt = retries - 1 then
            \<lparr>result = Inl e, sleeps = sl, attempts = Suc attempt\<rparr>
          else retry_loop svc texts retries (Suc attempt) n (sl @ [1]))"

definition generate_batch_embeddings ::
  "(nat \<Rightarrow> string list \<Rightarrow> py_error + vec list) \<Rightarrow> string list \<Rightarrow> nat \<Rightarrow> embed_run" where
  "generate_batch_embeddings svc texts retries = retry_loop svc texts retries 0 retries []"

text \<open>
  The inner loop of \<open>main\<close>, \<open>for j, chunk in enumerate(batch)\<close>. Reading
  \<open>batch_embeddings[j]\<close> raises IndexError when the service returned fewer vectors than
  texts; what was appended before stays appended.
\<close>

fun store_results ::
  "nat \<Rightarrow> nat \<Rightarrow> 'm chunk list \<Rightarrow> vec list \<Rightarrow> 'm index_state \<Rightarrow>
   'm index_state \<times> py_error option" where
  "store_results i j [] be st = (st, None)"
| "store_results i j (c # cs) be st =
     (if j < length be then
        store_results i (Suc j) cs be
          (st\<lparr>ids := ids st @ [chunk_id c],
              embeddings := embeddings st @ [be ! j],
              mapping := mapping st @
                [\<lparr>me_id = chunk_id c, me_text = chunk_text c, me_metadata = chunk_metadata c,
                  embeddingIndex = i + j\<rparr>]\<rparr>)
      else (st, Some IndexError))"

text \<open>
  One iteration of \<open>for i in range(0, len(chunks), BATCH_SIZE)\<close>: the \<open>try\<close> block and
  its \<open>except Exception\<close>, which prints the error and goes on. \<open>api i a texts\<close> is the
  answer of the service to attempt \<open>a\<close> for the batch that starts at chunk \<open>i\<close>.
\<close>

definition process_batch ::
  "(nat \<Rightarrow> nat \<Rightarrow> string list \<Rightarrow> py_error + vec list) \<Rightarrow> 'm chunk list \<Rightarrow> nat \<Rightarrow>
   'm index_state \<Rightarrow> 'm index_state" where
  "process_batch api chunks i st =
     (let batch = take BATCH_SIZE (drop i chunks);
          texts = map chunk_text batch
      in case result (generate_batch_embeddings (api i) texts 3) of
           Inl e \<Rightarrow> st
         | Inr batch_embeddings \<Rightarrow> fst (store_results i 0 batch batch_embeddings st))"

function batch_loop ::
  "(nat \<Rightarrow> nat \<Rightarrow> string list \<Rightarrow> py_error + vec list) \<Rightarrow> 'm chunk list \<Rightarrow> nat \<Rightarrow>
   'm index_state \<Rightarrow> 'm index_state" where
  "batch_loop api chunks i st =
     (if i < length chunks
      then batch_loop api chunks (i + BATCH_SIZE) (process_batch api chunks i st)
      else st)"
  by pat_completeness auto
termination
  by (relation "measure (\<lambda>(api, chunks, i, st). length chunks - i)")
     (auto simp: BATCH_SIZE_def)

definition indexer_main ::
  "(nat \<Rightarrow> nat \<Rightarrow> string list \<Rightarrow> py_error + vec list) \<Rightarrow> 'm chunk list \<Rightarrow> 'm index_state" where
  "indexer_main api chunks =
     batch_loop api chunks 0 \<lparr>ids = [], embeddings = [], mapping = []\<rparr>"

text \<open>An attempt that raised an exception of the rate-limit class.\<close>

definition rate_limited :: "py_error + vec list \<Rightarrow> bool" where
  "rate_limited r = (case r of Inl e \<Rightarrow> is_rate_limit e | Inr vs \<Rightarrow> False)"

text \<open>
  \<open>stored_pair api chunks s v\<close>: the id \<open>s\<close> is the id of a chunk of the input, and \<open>v\<close>
  is the vector that the embedding service returned for that chunk (the \<open>j\<close>-th vector of
  the answer for the chunk's batch, the chunk being the \<open>j\<close>-th of the batch).
\<close>

definition stored_pair ::
  "(nat \<Rightarrow> nat \<Rightarrow> string list \<Rightarrow> py_error + vec list) \<Rightarrow> 'm chunk list \<Rightarrow> string \<Rightarrow> vec \<Rightarrow> bool" where
  "stored_pair api chunks s v \<longleftrightarrow>
     (\<exists>i j be. BATCH_SIZE dvd i \<and> j < BATCH_SIZE \<and> i + j < length chunks \<and>
        result (generate_batch_embeddings (api i)
                  (map chunk_text (take BATCH_SIZE (drop i chunks))) 3) = Inr be \<and>
        j < length be \<and> s = chunk_id (chunks ! (i + j)) \<and> v = be ! j)"

text \<open>The invariant of the batch loop, before the batch that starts at chunk \<open>i\<close>.\<close>

definition index_inv ::
  "(nat \<Rightarrow> nat \<Rightarrow> string list \<Rightarrow> py_error + vec list) \<Rightarrow> 'm chunk list \<Rightarrow> nat \<Rightarrow>
   'm index_state \<Rightarrow> bool" where
  "index_inv api chunks i st \<longleftrightarrow>
     length (ids st) = length (embeddings st) \<and>
     subseq (ids st) (map chunk_id (take i chunks)) \<and>
     (\<forall>k<length (ids st). stored_pair api chunks (ids st ! k) (embeddings st ! k))"

section \<open>The regular expressions of guideline\_ingester.py\<close>

text \<open>
  The part of Python's \<open>re\<close> that the six heading patterns use, under the flag
  \<open>(?m)\<close>: classes of one character, literal text, \<open>^\<close> and \<open>$\<close>, greedy repetition of a
  class (\<open>+\<close>, \<open>*\<close>, \<open>{m,n}\<close>), \<open>?\<close>, sequence, alternative and the capturing group 1.
\<close>

datatype regex =
    Atom "char \<Rightarrow> bool"
  | Lit string
  | Bol
  | Eol
  | Rep "char \<Rightarrow> bool" nat "nat option"
  | Opt regex
  | Seq regex regex
  | Alt regex regex
  | Group regex

text \<open>
  A position of the matcher in the subject: the character before it, the text from it
  on, the number of characters before it, and what group 1 has captured.
\<close>

record mstate =
  prev :: "char option"
  remaining :: string
  consumed :: nat
  group1 :: "string option"

fun advance :: "nat \<Rightarrow> mstate \<Rightarrow> mstate" where
  "advance 0 st = st"
| "advance (Suc k) st =
     (case remaining st of
        [] \<Rightarrow> st
      | c # cs \<Rightarrow> advance k (st\<lparr>prev := Some c, remaining := cs, consumed := Suc (consumed st)\<rparr>))"

text \<open>
  \<open>match_ends r st\<close> lists the positions where a match of \<open>r\<close> that starts at \<open>st\<close> can end, in the
  order in which the backtracking matcher of \<open>re\<close> tries them: the first is the match it
  reports. \<open>^\<close> holds at the start of the subject and after a newline, \<open>$\<close> at its end and
  before a newline; a repetition tries the longest run first.
\<close>

fun match_ends :: "regex \<Rightarrow> mstate \<Rightarrow> mstate list" where
  "match_ends (Atom P) st =
     (case remaining st of
        [] \<Rightarrow> []
      | c # cs \<Rightarrow> if P c then [advance 1 st] else [])"
| "match_ends (Lit s) st = (if startswith (remaining st) s then [advance (length s) st] else [])"
| "match_ends Bol st = (if prev st = None \<or> prev st = Some (CHR 10) then [st] else [])"
| "match_ends Eol st = (case remaining st of [] \<Rightarrow> [st] | c # cs \<Rightarrow> if c = CHR 10 then [st] else [])"
| "match_ends (Rep P lo hi) st =
     (let avail = length (takeWhile P (remaining st));
          most = (case hi of None \<Rightarrow> avail | Some n \<Rightarrow> min n avail)
      in map (\<lambda>k. advance k st) (rev [lo..<Suc most]))"
| "match_ends (Opt r) st = match_ends r st @ [st]"
| "match_ends (Seq a b) st = concat (map (match_ends b) (match_ends a st))"
| "match_ends (Alt a b) st = match_ends a st @ match_ends b st"
| "match_ends (Group r) st =
     map (\<lambda>st'. st'\<lparr>group1 := Some (take (consumed st' - consumed st) (remaining st))\<rparr>) (match_ends r st)"


definition start_state :: "string \<Rightarrow> mstate" where
  "start_state s = \<lparr>prev = None, remaining = s, consumed = 0, group1 = None\<rparr>"

text \<open>\<open>re.match(pattern, s)\<close> as a truth value: a match at the start of \<open>s\<close>.\<close>

definition re_match :: "regex \<Rightarrow> string \<Rightarrow> bool" where
  "re_match r s = (match_ends r (start_state s) \<noteq> [])"

text \<open>
  The search for the leftmost match from \<open>st\<close> on: the position where it starts and the
  position where it ends. With \<open>must_advance\<close>, an empty match at \<open>st\<close> itself is not
  accepted (the rule of \<open>re\<close> for the search that follows an empty match).
\<close>

function search :: "regex \<Rightarrow> bool \<Rightarrow> mstate \<Rightarrow> (mstate \<times> mstate) option" where
  "search r must_advance st =
     (case filter (\<lambda>e. \<not> must_advance \<or> consumed st < consumed e) (match_ends r st) of
        e # es \<Rightarrow> Some (st, e)
      | [] \<Rightarrow> (case remaining st of [] \<Rightarrow> None | c # cs \<Rightarrow> search r False (advance 1 st)))"
  by pat_completeness auto
termination
  by (relation "measure (\<lambda>(r, m, st). length (remaining st))") auto

text \<open>
  \<open>re.split(pattern, s)\<close>: the text before each match and the text of group 1 (\<open>None\<close>
  when the group took no part in the match), then the text after the last match.
\<close>

function split_loop :: "regex \<Rightarrow> bool \<Rightarrow> mstate \<Rightarrow> string option list" where
  "split_loop r must_advance st =
     (case search r must_advance st of
        None \<Rightarrow> [Some (remaining st)]
      | Some (s, e) \<Rightarrow>
          Some (take (consumed s - consumed st) (remaining st)) # group1 e #
          split_loop r (consumed e = consumed s) (e\<lparr>group1 := None\<rparr>))"
  by pat_completeness auto
termination
proof (relation "measure (\<lambda>(r, m, st). 2 * length (remaining st) + (if m then 0 else 1))", goal_cases)
  case 1
  show ?case by simp
next
  case (2 r must_advance st x s e)
  have adv: "length (remaining (advance k st)) + consumed (advance k st) = length (remaining st) + consumed st \<and>
      consumed st \<le> consumed (advance k st)" for k st
    by (induction k st rule: advance.induct) (auto split: list.splits)
  have cnt: "length (remaining e) + consumed e = length (remaining st) + consumed st \<and> consumed st \<le> consumed e"
    if "e \<in> set (match_ends r st)" for e r st
    using that
  proof (induction r arbitrary: st e)
    case (Atom P)
    then show ?case using adv [of 1 st] by (auto split: list.splits if_splits)
  next
    case (Lit s)
    then show ?case using adv [of "length s" st] by (auto split: if_splits)
  next
    case Bol
    then show ?case by (auto split: if_splits)
  next
    case Eol
    then show ?case by (auto split: list.splits if_splits)
  next
    case (Rep P lo hi)
    then show ?case using adv [of _ st] by (auto simp: Let_def)
  next
    case (Opt r)
    then show ?case by auto
  next
    case (Seq a b)
    from Seq.prems obtain m where m: "m \<in> set (match_ends a st)" "e \<in> set (match_ends b m)" by auto
    show ?case using Seq.IH(1) [OF m(1)] Seq.IH(2) [OF m(2)] by simp
  next
    case (Alt a b)
    then show ?case by auto
  next
    case (Group r)
    then show ?case by auto
  qed
  have srch: "length (remaining e) + consumed e = length (remaining s) + consumed s \<and> consumed s \<le> consumed e \<and>
      length (remaining s) \<le> length (remaining st) \<and>
      (m \<and> length (remaining s) = length (remaining st) \<longrightarrow> consumed s < consumed e)"
    if "search r m st = Some (s, e)" for r m st s e
    using that
  proof (induction r m st rule: search.induct)
    case (1 r must_advance st)
    show ?case
    proof (cases "filter (\<lambda>e. \<not> must_advance \<or> consumed st < consumed e) (match_ends r st)")
      case (Cons x xs)
      then have "x \<in> set (filter (\<lambda>e. \<not> must_advance \<or> consumed st < consumed e) (match_ends r st))"
        by simp
      moreover have "s = st" "e = x" using "1.prems" Cons by simp_all
      ultimately show ?thesis using cnt [of e r st] by auto
    next
      case Nil
      show ?thesis
      proof (cases "remaining st")
        case Nil' : Nil
        then show ?thesis using "1.prems" Nil by simp
      next
        case (Cons c cs)
        then have "search r False (advance 1 st) = Some (s, e)"
          using "1.prems" Nil by simp
        from "1.IH" [OF Nil Cons this] show ?thesis
          using Cons by auto
      qed
    qed
  qed
  from 2 have "search r must_advance st = Some (s, e)" by simp
  from srch [OF this] show ?case by auto
qed

declare search.simps [simp del] split_loop.simps [simp del]

definition re_split :: "regex \<Rightarrow> string \<Rightarrow> string option list" where
  "re_split r s = split_loop r False (start_state s)"

text \<open>The classes \<open>\d\<close>, \<open>[A-Z]\<close> and \<open>.\<close>; \<open>\s\<close> is \<open>is_space\<close>.\<close>

definition digit :: "char \<Rightarrow> bool" where
  "digit c = (c \<in> set ''0123456789'')"

definition upper :: "char \<Rightarrow> bool" where
  "upper c = (c \<in> set ''ABCDEFGHIJKLMNOPQRSTUVWXYZ'')"

definition dot :: "char \<Rightarrow> bool" where
  "dot c = (c \<noteq> CHR 10)"

text \<open>A sequence and an alternative of several parts.\<close>

definition seqs :: "regex list \<Rightarrow> regex" where
  "seqs rs = foldr Seq (butlast rs) (last rs)"

definition alts :: "regex list \<Rightarrow> regex" where
  "alts rs = foldr Alt (butlast rs) (last rs)"

text \<open>
  The patterns of \<open>chunk_by_headers\<close>, in the order of the script:
  \<^verbatim>\<open>(?m)^(\d+\.\d+\s+[A-Z].+)$\<close>,
  \<^verbatim>\<open>(?m)^(Chapter\s+\d+[:\s-]+.+)$\<close>,
  \<^verbatim>\<open>(?m)^(CHAPTER\s+\d+[:\s-]+.+)$\<close>,
  \<^verbatim>\<open>(?m)^([A-Z][A-Z\s]{5,40})$\<close>,
  \<^verbatim>\<open>(?m)^(\d+\.\s+[A-Z].+)$\<close> and
  \<^verbatim>\<open>(?m)^(Key\s+Points?|Recommendations?|Summary|Definition|Management|Treatment|Diagnosis).*$\<close>.
\<close>

definition pat1 :: regex where
  "pat1 = seqs [Bol, Group (seqs [Rep digit 1 None, Lit ''.'', Rep digit 1 None, Rep is_space 1 None,
                                  Atom upper, Rep dot 1 None]), Eol]"
definition pat2 :: regex where
  "pat2 = seqs [Bol, Group (seqs [Lit ''Chapter'', Rep is_space 1 None, Rep digit 1 None,
                  Rep (\<lambda>c. c = CHR '':'' \<or> is_space c \<or> c = CHR ''-'') 1 None, Rep dot 1 None]), Eol]"
definition pat3 :: regex where
  "pat3 = seqs [Bol, Group (seqs [Lit ''CHAPTER'', Rep is_space 1 None, Rep digit 1 None,
                  Rep (\<lambda>c. c = CHR '':'' \<or> is_space c \<or> c = CHR ''-'') 1 None, Rep dot 1 None]), Eol]"
definition pat4 :: regex where
  "pat4 = seqs [Bol, Group (seqs [Atom upper, Rep (\<lambda>c. upper c \<or> is_space c) 5 (Some 40)]), Eol]"
definition pat5 :: regex where
  "pat5 = seqs [Bol, Group (seqs [Rep digit 1 None, Lit ''.'', Rep is_space 1 None,
                                  Atom upper, Rep dot 1 None]), Eol]"
definition pat6 :: regex where
  "pat6 = seqs [Bol, Group (alts [seqs [Lit ''Key'', Rep is_space 1 None, Lit ''Point'', Opt (Lit ''s'')],
                                  seqs [Lit ''Recommendation'', Opt (Lit ''s'')],
                                  Lit ''Summary'', Lit ''Definition'', Lit ''Management'',
                                  Lit ''Treatment'', Lit ''Diagnosis'']), Rep dot 0 None, Eol]"

definition patterns :: "regex list" where
  "patterns = [pat1, pat2, pat3, pat4, pat5, pat6]"

section \<open>guideline\_ingester.py\<close>

text \<open>A guideline chunk, as \<open>chunk_by_headers\<close> builds it.\<close>

record guideline_metadata =
  md_source :: string
  md_type :: string
  md_topic :: string

type_synonym guideline_chunk = "guideline_metadata chunk"

text \<open>\<open>os.path.basename\<close>: what follows the last slash.\<close>

definition basename :: "string \<Rightarrow> string" where
  "basename path = rev (takeWhile (\<lambda>c. c \<noteq> CHR ''/'') (rev path))"

text \<open>\<open>str(n)\<close> for a natural number.\<close>

function str_nat :: "nat \<Rightarrow> string" where
  "str_nat n =
     (if n < 10 then [''0123456789'' ! n]
      else str_nat (n div 10) @ [''0123456789'' ! (n mod 10)])"
  by pat_completeness auto
termination
  by (relation "measure id") auto

declare str_nat.simps [simp del]

text \<open>\<open>text.split()\<close>: the maximal runs of characters that are not white space.\<close>

function split_words :: "string \<Rightarrow> string list" where
  "split_words s =
     (case dropWhile is_space s of
        [] \<Rightarrow> []
      | c # cs \<Rightarrow>
          takeWhile (\<lambda>x. \<not> is_space x) (c # cs) #
          split_words (dropWhile (\<lambda>x. \<not> is_space x) cs))"
  by pat_completeness auto
termination
proof (relation "measure length", goal_cases)
  case 1
  show ?case by simp
next
  case (2 s c cs)
  have "length (dropWhile (\<lambda>x. \<not> is_space x) cs) \<le> length cs"
    by (rule length_dropWhile_le)
  moreover have "length (c # cs) \<le> length s"
    using 2 length_dropWhile_le [of is_space s] by simp
  ultimately show ?case by simp
qed

declare split_words.simps [simp del]

text \<open>
  The dictionary that both loops append: the chunk number \<open>n\<close> is \<open>len(chunks)\<close>, the
  label is the current header or \<open>Section n+1\<close>.
\<close>

definition new_chunk :: "string \<Rightarrow> string \<Rightarrow> nat \<Rightarrow> string \<Rightarrow> guideline_chunk" where
  "new_chunk source label n part =
     \<lparr>chunk_id = ''guide_'' @ replace ''.pdf'' [] (basename source) @ ''_'' @ str_nat n,
      chunk_text = ''TOPIC: '' @ label @ [CHR 10] @ ''SOURCE: '' @ basename source @
                   [CHR 10, CHR 10] @ part,
      chunk_metadata = \<lparr>md_source = basename source, md_type = ''guideline'', md_topic = label\<rparr>\<rparr>"

text \<open>
  The loop \<open>for i, part in enumerate(splits)\<close> for one pattern, from index \<open>i\<close> on. The
  part at index 0 is passed over. \<open>part.strip()\<close> raises AttributeError on \<open>None\<close>.
\<close>

fun header_loop ::
  "regex \<Rightarrow> string \<Rightarrow> nat \<Rightarrow> string option list \<Rightarrow> string \<Rightarrow> guideline_chunk list \<Rightarrow>
   py_error + guideline_chunk list" where
  "header_loop pattern source i [] current_header chunks = Inr chunks"
| "header_loop pattern source i (p # splits) current_header chunks =
     (if i = 0 then header_loop pattern source (Suc i) splits current_header chunks
      else
        (case p of
           None \<Rightarrow> Inl AttributeError
         | Some raw \<Rightarrow>
             (let part = strip raw
              in if re_match pattern part
                 then header_loop pattern source (Suc i) splits part chunks
                 else if length part > 50
                 then header_loop pattern source (Suc i) splits current_header
                        (chunks @ [new_chunk source current_header (length chunks) part])
                 else header_loop pattern source (Suc i) splits current_header chunks)))"

text \<open>The loop \<open>for pattern in patterns\<close>, which stops at the first pattern with chunks.\<close>

fun pattern_loop ::
  "regex list \<Rightarrow> string \<Rightarrow> string \<Rightarrow> guideline_chunk list \<Rightarrow> py_error + guideline_chunk list" where
  "pattern_loop [] txt source chunks = Inr chunks"
| "pattern_loop (pattern # ps) txt source chunks =
     (case header_loop pattern source 0 (re_split pattern txt) ''Introduction'' chunks of
        Inl e \<Rightarrow> Inl e
      | Inr chunks' \<Rightarrow>
          if length chunks' > 0 then Inr chunks' else pattern_loop ps txt source chunks')"

definition chunk_size :: nat where
  "chunk_size = 2000"

text \<open>The loop \<open>for i in range(0, len(words), chunk_size // 5)\<close> of the fallback.\<close>

function fallback_loop ::
  "string \<Rightarrow> string list \<Rightarrow> nat \<Rightarrow> guideline_chunk list \<Rightarrow> guideline_chunk list" where
  "fallback_loop source words i chunks =
     (if i < length words then
        (let chunk_text = join '' '' (take (chunk_size div 5) (drop i words))
         in fallback_loop source words (i + chunk_size div 5)
              (if length chunk_text > 100
               then chunks @ [new_chunk source (''Section '' @ str_nat (length chunks + 1))
                                (length chunks) chunk_text]
               else chunks))
      else chunks)"
  by pat_completeness auto
termination
  by (relation "measure (\<lambda>(source, words, i, chunks). length words - i)")
     (auto simp: chunk_size_def)

declare fallback_loop.simps [simp del]

definition chunk_by_headers :: "string \<Rightarrow> string \<Rightarrow> py_error + guideline_chunk list" where
  "chunk_by_headers txt source =
     (case pattern_loop patterns txt source [] of
        Inl e \<Rightarrow> Inl e
      | Inr chunks \<Rightarrow>
          if length chunks = 0 \<and> length txt > 200
          then Inr (fallback_loop source (split_words txt) 0 chunks)
          else Inr chunks)"

section \<open>diff\_analysis.py\<close>

text \<open>What \<open>json.loads\<close> returns.\<close>

datatype json =
    JNull
  | JBool bool
  | JInt int
  | JNum real
  | JStr string
  | JArr "json list"
  | JObj "(string \<times> json) list"

text \<open>Truth value of a Python object, as \<open>if x:\<close> tests it; \<open>None\<close> is \<open>JNull\<close>.\<close>

fun truthy :: "json \<Rightarrow> bool" where
  "truthy JNull = False"
| "truthy (JBool b) = b"
| "truthy (JInt n) = (n \<noteq> 0)"
| "truthy (JNum x) = (x \<noteq> 0)"
| "truthy (JStr s) = (s \<noteq> [])"
| "truthy (JArr xs) = (xs \<noteq> [])"
| "truthy (JObj kvs) = (kvs \<noteq> [])"

text \<open>\<open>result.get(key, default)\<close>: only a dict has the method.\<close>

fun py_get :: "json \<Rightarrow> string \<Rightarrow> json \<Rightarrow> py_error + json" where
  "py_get (JObj kvs) k d = Inr (case map_of kvs k of None \<Rightarrow> d | Some v \<Rightarrow> v)"
| "py_get j k d = Inl AttributeError"

text \<open>
  A float32 value, as an entry of a NumPy array: a number, an infinity (what overflow or a
  division by zero gives) or \<open>nan\<close> (what \<open>0 / 0\<close> gives). Sorting puts \<open>-inf\<close> first, then
  the numbers in ascending order, then \<open>inf\<close>, then \<open>nan\<close>: the order of \<open>score_key\<close>.
\<close>

datatype score = NegInf | Num real | PosInf | NaN

fun score_key :: "score \<Rightarrow> nat \<times> real" where
  "score_key NegInf = (0, 0)"
| "score_key (Num x) = (1, x)"
| "score_key PosInf = (2, 0)"
| "score_key NaN = (3, 0)"

text \<open>
  The files that \<open>load_vector_db\<close> reads, \<open>None\<close> for a file that does not exist:
  \<open>embeddings.json\<close> with its \<open>ids\<close> and \<open>embeddings\<close>, and \<open>chunk_mapping.json\<close> with an
  \<open>id\<close> and a \<open>text\<close> per entry.
\<close>

record rag_files =
  embeddings_file :: "(string list \<times> vec list) option"
  mapping_file :: "(string \<times> string) list option"

record vector_db =
  db_ids :: "string list"
  db_embeddings :: "vec list"
  db_texts :: "string \<rightharpoonup> string"

text \<open>
  \<open>np.array(rows, dtype='float32')\<close>: an empty list gives a one-dimensional array of
  shape \<open>(0,)\<close>, rows of one length a two-dimensional array, and rows of different
  lengths raise ValueError. The array is kept as the list of its rows; it has two
  dimensions exactly when the list is not empty.
\<close>

definition np_array :: "vec list \<Rightarrow> py_error + vec list" where
  "np_array rows =
     (if \<forall>r \<in> set rows. length r = length (hd rows) then Inr rows else Inl ValueError)"

definition load_vector_db :: "rag_files \<Rightarrow> py_error + vector_db option" where
  "load_vector_db files =
     (case embeddings_file files of
        None \<Rightarrow> Inr None
      | Some (data_ids, data_embeddings) \<Rightarrow>
          (case mapping_file files of
             None \<Rightarrow> Inr None
           | Some entries \<Rightarrow>
               (case np_array data_embeddings of
                  Inl e \<Rightarrow> Inl e
                | Inr arr \<Rightarrow>
                    Inr (Some \<lparr>db_ids = data_ids, db_embeddings = arr,
                               db_texts = map_of (rev entries)\<rparr>))))"

text \<open>
  The services and library functions the script calls. \<open>embed_content i text\<close> and
  \<open>generate_content i prompt\<close> are what the embedding service and the classification
  oracle answer for guideline chunk number \<open>i\<close> (an exception, or the embedding and the
  response text); an exception of \<open>generate_content\<close> also stands for a response without
  text. \<open>json_loads\<close> is \<open>json.loads\<close>, \<open>None\<close> when it raises JSONDecodeError.
  \<open>format_2f\<close> writes a score with two decimals.

  NumPy computes in float32, which rounds, overflows to \<open>inf\<close> and underflows to 0, so the
  results of its arithmetic are taken from the environment as well: \<open>f32_norm v\<close> is
  \<open>np.linalg.norm\<close> of the float32 array made from \<open>v\<close>, \<open>f32_dot u v\<close> is \<open>np.dot\<close> of two
  such arrays of one length, \<open>f32_mul\<close> and \<open>f32_div\<close> are the product and the quotient of
  two float32 values. \<open>np.argsort\<close> is called with its default kind, which is not stable: the order
  it leaves among equal entries is not specified, and \<open>argsort_ties scores i\<close> is the
  rank that the sort gives position \<open>i\<close> among the positions with an equal entry.
\<close>

record env =
  embed_content :: "nat \<Rightarrow> string \<Rightarrow> py_error + vec"
  generate_content :: "nat \<Rightarrow> string \<Rightarrow> py_error + string"
  json_loads :: "string \<Rightarrow> json option"
  format_2f :: "score \<Rightarrow> string"
  f32_norm :: "vec \<Rightarrow> score"
  f32_dot :: "vec \<Rightarrow> vec \<Rightarrow> score"
  f32_mul :: "score \<Rightarrow> score \<Rightarrow> score"
  f32_div :: "score \<Rightarrow> score \<Rightarrow> score"
  argsort_ties :: "score list \<Rightarrow> nat \<Rightarrow> nat"

definition get_embedding :: "env \<Rightarrow> nat \<Rightarrow> string \<Rightarrow> vec" where
  "get_embedding ev i txt =
     (case embed_content ev i txt of
        Inr values \<Rightarrow> values
      | Inl e \<Rightarrow> replicate 768 0)"

text \<open>
  \<open>np.linalg.norm\<close> of one vector. On a vector of zeros (the empty vector included) every
  step is exact in float32 and the result is 0; on any other vector the result is the one
  of the environment, which may be 0 by underflow and \<open>inf\<close> by overflow.
\<close>

definition np_norm :: "env \<Rightarrow> vec \<Rightarrow> score" where
  "np_norm ev v = (if \<forall>x \<in> set v. x = 0 then Num 0 else f32_norm ev v)"

text \<open>
  \<open>np.argsort(scores)\<close>: the positions in ascending order of their entries, positions with
  equal entries in the order the environment gives them. Every way of ordering equal
  entries is the result for some \<open>argsort_ties\<close> (\<open>argsort_any_order\<close>).
\<close>

definition argsort :: "env \<Rightarrow> score list \<Rightarrow> nat list" where
  "argsort ev scores =
     sort_key (\<lambda>i. (score_key (scores ! i), argsort_ties ev scores i)) [0..<length scores]"

text \<open>
  Lines 105 to 114 of \<open>find_relevant_textbook_chunks\<close>: the positions of the \<open>k\<close> best
  stored vectors with their scores, best first (\<open>k\<close> is 3 in the script). The empty
  result stands for the early \<open>return ""\<close> on a query of norm zero. Taking the norms of
  the rows of an array with one dimension raises AxisError, and the product with a query
  of another length raises ValueError.
\<close>

definition similarity_search ::
  "env \<Rightarrow> vec list \<Rightarrow> vec \<Rightarrow> nat \<Rightarrow> py_error + (nat \<times> score) list" where
  "similarity_search ev vectors query_vec k =
     (if vectors = [] then Inl AxisError
      else
        let norms = map (np_norm ev) vectors;
            query_norm = np_norm ev query_vec
        in if query_norm = Num 0 then Inr []
           else if length (hd vectors) \<noteq> length query_vec then Inl ValueError
           else
             let scores = map (\<lambda>(row, n).
                                 f32_div ev (f32_dot ev row query_vec) (f32_mul ev n query_norm))
                              (zip vectors norms);
                 top_indices = take k (rev (argsort ev scores))
             in Inr (map (\<lambda>idx. (idx, scores ! idx)) top_indices))"

text \<open>The loop that builds \<open>context\<close>; \<open>ids[idx]\<close> raises IndexError out of range.\<close>

fun build_context ::
  "env \<Rightarrow> vector_db \<Rightarrow> (nat \<times> score) list \<Rightarrow> py_error + string list" where
  "build_context ev db [] = Inr []"
| "build_context ev db ((idx, sc) # rest) =
     (if idx < length (db_ids db) then
        (let chunk_id = db_ids db ! idx;
             txt = (case db_texts db chunk_id of None \<Rightarrow> '''' | Some t \<Rightarrow> t)
         in case build_context ev db rest of
              Inl e \<Rightarrow> Inl e
            | Inr context \<Rightarrow>
                Inr ((''--- MATCH (Score: '' @ format_2f ev sc @ '') ---'' @ [CHR 10] @ txt)
                     # context))
      else Inl IndexError)"

text \<open>
  \<open>find_relevant_textbook_chunks\<close>, with the global \<open>VECTOR_DB\<close> passed in and returned.
\<close>

definition find_relevant_textbook_chunks ::
  "env \<Rightarrow> rag_files \<Rightarrow> nat \<Rightarrow> vector_db option \<Rightarrow> guideline_chunk \<Rightarrow>
   (py_error + string) \<times> vector_db option" where
  "find_relevant_textbook_chunks ev files i VECTOR_DB guideline_chunk =
     (case (case VECTOR_DB of None \<Rightarrow> load_vector_db files | Some db \<Rightarrow> Inr (Some db)) of
        Inl e \<Rightarrow> (Inl e, None)
      | Inr None \<Rightarrow> (Inr ''Reference textbook content unavailable.'', None)
      | Inr (Some db) \<Rightarrow>
          (let query_vec = get_embedding ev i (chunk_text guideline_chunk)
           in case similarity_search ev (db_embeddings db) query_vec 3 of
                Inl e \<Rightarrow> (Inl e, Some db)
              | Inr matches \<Rightarrow>
                  (case build_context ev db matches of
                     Inl e \<Rightarrow> (Inl e, Some db)
                   | Inr context \<Rightarrow> (Inr (join [CHR 10, CHR 10] context), Some db))))"

definition DIFF_PROMPT :: "string \<Rightarrow> string \<Rightarrow> string" where
  \<open>DIFF_PROMPT guideline_text textbook_text =
     join [CHR 10]
      ['''',
       ''You are an expert NEET-SS Pulmonology Examiner. '',
       ''Task: Compare the "Recent Guideline" text with the "Standard Textbook" context.'',
       '''',
       ''GUIDELINE (Newer):'',
       guideline_text,
       '''',
       ''TEXTBOOK (Older/Standard):'',
       textbook_text,
       '''',
       ''Determine if the Guideline represents a SIGNIFICANT PARADIGM SHIFT or UPDATE that conflicts with or adds to the textbook.'',
       ''Ignore minor phrasing differences. Focus on:'',
       ''1. New Drug Approvals'',
       ''2. Changed Numerical Cut-offs'',
       ''3. Contraindications becoming Indications (or vice versa)'',
       ''4. New Classification Systems'',
       '''',
       ''If there is a shift, output JSON:'',
       ''{'',
       ''  "has_shift": true,'',
       ''  "topic": "Short Topic Name",'',
       ''  "old_concept": "Summary of old textbook view",'',
       ''  "new_concept": "Summary of new guideline view",'',
       ''  "exam_relevance_score": 1-10 (10 = Certain Exam Question),'',
       ''  "reason": "Why is this high yield?"'',
       ''}'',
       '''',
       ''If NO significant shift, output:'',
       ''{ "has_shift": false }'',
       '''']\<close>

definition no_shift :: json where
  "no_shift = JObj [(''has_shift'', JBool False)]"

text \<open>The text that \<open>analyze_chunk\<close> hands to \<open>json.loads\<close>.\<close>

definition strip_fences :: "string \<Rightarrow> string" where
  "strip_fences response_text = replace ''```'' '''' (replace ''```json'' '''' (strip response_text))"

definition analyze_chunk ::
  "env \<Rightarrow> rag_files \<Rightarrow> nat \<Rightarrow> vector_db option \<Rightarrow> guideline_chunk \<Rightarrow>
   (py_error + json) \<times> vector_db option" where
  "analyze_chunk ev files i VECTOR_DB chunk =
     (case find_relevant_textbook_chunks ev files i VECTOR_DB chunk of
        (Inl e, vdb) \<Rightarrow> (Inl e, vdb)
      | (Inr textbook_context, vdb) \<Rightarrow>
          if textbook_context = [] \<or> py_in ''unavailable'' textbook_context
          then (Inr no_shift, vdb)
          else
            (case generate_content ev i
                    (DIFF_PROMPT (take 4000 (chunk_text chunk)) (take 4000 textbook_context)) of
               Inl e \<Rightarrow> (Inr no_shift, vdb)
             | Inr response_text \<Rightarrow>
                 (case json_loads ev (strip_fences response_text) of
                    None \<Rightarrow> (Inr no_shift, vdb)
                  | Some j \<Rightarrow> (Inr j, vdb))))"

text \<open>An argument of \<open>+\<close> between strings: anything but a string raises TypeError.\<close>

fun py_str :: "json \<Rightarrow> py_error + string" where
  "py_str (JStr s) = Inr s"
| "py_str j = Inl TypeError"

definition detect_category :: "string \<Rightarrow> string \<Rightarrow> string" where
  "detect_category topic txt =
     (let combined = lower (topic @ '' '' @ txt)
      in if \<exists>kw \<in> set [''tuberculosis'', '' tb '', ''dr-tb'', ''mdr-tb'', ''xdr-tb'', ''ntep'',
                         ''rntcp'', ''dots'']. py_in kw combined then ''TB''
         else if \<exists>kw \<in> set [''asthma'', ''gina'', ''bronchodilator'', ''ics-formoterol'',
                              ''inhaler'']. py_in kw combined then ''Asthma''
         else if \<exists>kw \<in> set [''ards'', ''acute respiratory distress'', ''ventilation'',
                              ''plateau pressure'']. py_in kw combined then ''ARDS''
         else if \<exists>kw \<in> set [''copd'', ''gold report'', ''emphysema'', ''chronic obstructive''].
                   py_in kw combined then ''COPD''
         else if \<exists>kw \<in> set [''pneumonia'', ''cap '', ''community-acquired''].
                   py_in kw combined then ''Pneumonia''
         else ''Other'')"

text \<open>
  The body of \<open>if result.get('has_shift')\<close> in \<open>main\<close>: the trend record to append, or the
  exception raised on the way (a topic or concept that is not a string, a missing
  relevance score in the \<open>print\<close>).
\<close>

definition make_trend :: "json \<Rightarrow> guideline_chunk \<Rightarrow> py_error + json" where
  "make_trend res chunk =
     (case res of
        JObj kvs \<Rightarrow>
          (case py_str (case map_of kvs ''topic'' of None \<Rightarrow> JStr '''' | Some v \<Rightarrow> v) of
             Inl e \<Rightarrow> Inl e
           | Inr topic \<Rightarrow>
               (case py_str (case map_of kvs ''new_concept'' of None \<Rightarrow> JStr '''' | Some v \<Rightarrow> v) of
                  Inl e \<Rightarrow> Inl e
                | Inr new_concept \<Rightarrow>
                    (let category = detect_category topic new_concept
                     in case map_of kvs ''exam_relevance_score'' of
                          None \<Rightarrow> Inl KeyError
                        | Some sc \<Rightarrow>
                            Inr (JObj (AList.update ''category'' (JStr category)
                                   (AList.update ''source_guideline''
                                      (JStr (md_source (chunk_metadata chunk))) kvs))))))
      | _ \<Rightarrow> Inl AttributeError)"

text \<open>
  The loop \<open>for i, chunk in enumerate(chunks)\<close> of \<open>main\<close>: the trends collected so far and
  the global \<open>VECTOR_DB\<close> are the state; an exception ends the run.
\<close>

fun analysis_loop ::
  "env \<Rightarrow> rag_files \<Rightarrow> nat \<Rightarrow> guideline_chunk list \<Rightarrow> json list \<times> vector_db option \<Rightarrow>
   py_error + json list \<times> vector_db option" where
  "analysis_loop ev files i [] st = Inr st"
| "analysis_loop ev files i (chunk # rest) (trends, VECTOR_DB) =
     (case analyze_chunk ev files i VECTOR_DB chunk of
        (Inl e, vdb) \<Rightarrow> Inl e
      | (Inr res, vdb) \<Rightarrow>
          (case py_get res ''has_shift'' JNull of
             Inl e \<Rightarrow> Inl e
           | Inr flag \<Rightarrow>
               if truthy flag then
                 (case make_trend res chunk of
                    Inl e \<Rightarrow> Inl e
                  | Inr trend \<Rightarrow> analysis_loop ev files (Suc i) rest (trends @ [trend], vdb))
               else analysis_loop ev files (Suc i) rest (trends, vdb)))"

text \<open>\<open>t['source_guideline']\<close> of a trend record, which always has the key.\<close>

definition source_guideline :: "json \<Rightarrow> json" where
  "source_guideline t =
     (case t of
        JObj kvs \<Rightarrow> (case map_of kvs ''source_guideline'' of None \<Rightarrow> JNull | Some v \<Rightarrow> v)
      | _ \<Rightarrow> JNull)"

text \<open>The report that \<open>main\<close> writes (without its time stamp).\<close>

record report =
  total_trends :: nat
  sources_analyzed :: "json set"
  trends :: "json list"

text \<open>
  \<open>main\<close>: \<open>None\<close> when the file of guideline chunks does not exist (nothing is
  written), an exception when the run aborts, the report otherwise.
\<close>

definition diff_main ::
  "env \<Rightarrow> rag_files \<Rightarrow> guideline_chunk list option \<Rightarrow> py_error + report option" where
  "diff_main ev files guideline_chunks =
     (case guideline_chunks of
        None \<Rightarrow> Inr None
      | Some chunks \<Rightarrow>
          (case analysis_loop ev files 0 chunks ([], None) of
             Inl e \<Rightarrow> Inl e
           | Inr (found, vdb) \<Rightarrow>
               Inr (Some \<lparr>total_trends = length found,
                          sources_analyzed = set (map source_guideline found),
                          trends = found\<rparr>)))"

section \<open>Notions used in the statements\<close>

text \<open>
  The classification oracle gave nothing usable for chunk \<open>i\<close>: its call raised, or
  \<open>json.loads\<close> rejects the response after the code fences are stripped.
\<close>

definition oracle_unusable :: "env \<Rightarrow> nat \<Rightarrow> guideline_chunk \<Rightarrow> string \<Rightarrow> bool" where
  "oracle_unusable ev i chunk ctx =
     (case generate_content ev i (DIFF_PROMPT (take 4000 (chunk_text chunk)) (take 4000 ctx)) of
        Inl e \<Rightarrow> True
      | Inr response_text \<Rightarrow> json_loads ev (strip_fences response_text) = None)"

text \<open>The cosine similarity that the search computes for one stored vector.\<close>

definition cosine_score :: "env \<Rightarrow> vec \<Rightarrow> vec \<Rightarrow> score" where
  "cosine_score ev row q =
     f32_div ev (f32_dot ev row q) (f32_mul ev (np_norm ev row) (np_norm ev q))"

text \<open>
  A small index of two unit vectors, a guideline chunk, and services with fixed answers,
  for the concrete runs below. The vectors have entries 0 and 1 only, on which float32
  arithmetic is exact: the environment of the runs computes norm, product and quotient
  exactly, and its sort leaves equal entries in the order of their positions.
\<close>

definition exact_norm :: "vec \<Rightarrow> score" where
  "exact_norm v = Num (sqrt (\<Sum>x\<leftarrow>v. x * x))"

definition exact_dot :: "vec \<Rightarrow> vec \<Rightarrow> score" where
  "exact_dot u v = Num (\<Sum>(x, y)\<leftarrow>zip u v. x * y)"

fun exact_mul :: "score \<Rightarrow> score \<Rightarrow> score" where
  "exact_mul (Num x) (Num y) = Num (x * y)"
| "exact_mul a b = NaN"

fun exact_div :: "score \<Rightarrow> score \<Rightarrow> score" where
  "exact_div (Num x) (Num y) =
     (if y \<noteq> 0 then Num (x / y) else if x = 0 then NaN else if 0 < x then PosInf else NegInf)"
| "exact_div a b = NaN"

definition example_files :: rag_files where
  "example_files =
     \<lparr>embeddings_file = Some ([''t0'', ''t1''], [ [1, 0], [0, 1] ]),
      mapping_file = Some [(''t0'', ''COPD staging''), (''t1'', ''Asthma control'')]\<rparr>"

definition example_db :: vector_db where
  "example_db =
     \<lparr>db_ids = [''t0'', ''t1''], db_embeddings = [ [1, 0], [0, 1] ],
      db_texts = map_of [(''t1'', ''Asthma control''), (''t0'', ''COPD staging'')]\<rparr>"

definition example_env :: "(py_error + vec) \<Rightarrow> (py_error + string) \<Rightarrow> env" where
  \<open>example_env emb resp =
     \<lparr>embed_content = (\<lambda>i t. emb),
      generate_content = (\<lambda>i p. resp),
      json_loads = (\<lambda>s. if s = ''{"has_shift": false}'' then Some (JObj [(''has_shift'', JBool False)])
                         else None),
      format_2f = (\<lambda>sc. if sc = Num 1 then ''1.00'' else if sc = Num 0 then ''0.00'' else ''nan''),
      f32_norm = exact_norm,
      f32_dot = exact_dot,
      f32_mul = exact_mul,
      f32_div = exact_div,
      argsort_ties = (\<lambda>scores i. 0)\<rparr>\<close>

definition example_chunk :: guideline_chunk where
  "example_chunk =
     \<lparr>chunk_id = ''guide_gold_0'', chunk_text = ''GOLD 2024 staging'',
      chunk_metadata = \<lparr>md_source = ''gold.pdf'', md_type = ''guideline'', md_topic = ''1.1 Staging''\<rparr>\<rparr>"




text \<open>A passage of 214 characters, for a text whose only body is too short for a chunk.\<close>

definition example_long_preamble :: string where
  "example_long_preamble = concat (replicate 13 ''inhaled therapy '') @ ''today.''"

section \<open>Retry policy of generate\_batch\_embeddings\<close>

lemma retry_step_rate_limited:
  "rate_limited (svc a texts) \<Longrightarrow>
   retry_loop svc texts r a (Suc n) sl = retry_loop svc texts r (Suc a) n (sl @ [2 ^ (a + 1)])"
  by (auto simp: rate_limited_def split: sum.splits)

lemma retry_step_success:
  "svc a texts = Inr vs \<Longrightarrow>
   retry_loop svc texts r a (Suc n) sl = \<lparr>result = Inr vs, sleeps = sl, attempts = Suc a\<rparr>"
  by simp

lemma retry_three_failures:
  assumes "\<forall>k<3. rate_limited (svc k texts)"
  shows "generate_batch_embeddings svc texts 3 =
         \<lparr>result = Inl (Exception ''Failed after retries''), sleeps = [2, 4, 8], attempts = 3\<rparr>"
proof -
  have f: "rate_limited (svc 0 texts)" "rate_limited (svc (Suc 0) texts)"
    "rate_limited (svc (Suc (Suc 0)) texts)"
    using assms by (simp_all add: numeral_3_eq_3)
  show ?thesis
    unfolding generate_batch_embeddings_def numeral_3_eq_3
    by (simp add: retry_step_rate_limited f del: retry_loop.simps(2))
qed

lemma retry_then_success:
  assumes "\<forall>k<N. rate_limited (svc k texts)" and "svc N texts = Inr vs" and "N < 3"
  shows "generate_batch_embeddings svc texts 3 =
         \<lparr>result = Inr vs, sleeps = map (\<lambda>k. 2 ^ (k + 1)) [0..<N], attempts = N + 1\<rparr>"
proof -
  consider "N = 0" | "N = Suc 0" | "N = Suc (Suc 0)"
    using assms(3) by linarith
  then show ?thesis
  proof cases
    case 1
    then show ?thesis
      using assms(2) unfolding generate_batch_embeddings_def numeral_3_eq_3
      by (simp add: retry_step_success del: retry_loop.simps(2))
  next
    case 2
    then have "rate_limited (svc 0 texts)" "svc (Suc 0) texts = Inr vs"
      using assms by simp_all
    then show ?thesis
      unfolding generate_batch_embeddings_def numeral_3_eq_3 2
      by (simp add: retry_step_success retry_step_rate_limited del: retry_loop.simps(2))
  next
    case 3
    then have "rate_limited (svc 0 texts)" "rate_limited (svc (Suc 0) texts)"
      "svc (Suc (Suc 0)) texts = Inr vs"
      using assms by simp_all
    then show ?thesis
      unfolding generate_batch_embeddings_def numeral_3_eq_3 3
      by (simp add: retry_step_success retry_step_rate_limited del: retry_loop.simps(2))
  qed
qed

text \<open>
  Claim C2. With the default \<open>retries = 3\<close>: when the embedding call raises rate-limit
  errors in its first \<open>N\<close> attempts and succeeds in the next, the function returns the
  embeddings exactly when \<open>N < 3\<close>, having slept \<open>2, 4, \<dots>\<close> seconds after the failed
  attempts. When the first three attempts all raise rate-limit errors, it makes exactly
  three attempts, sleeps 2, 4 and 8 seconds (each wait twice the one before, so the waits
  never decrease) and raises; in \<open>main\<close> the exception is caught for that batch, whose
  chunks are not stored.
\<close>

theorem generate_batch_embeddings_retry_policy:
  "((\<forall>k<N. rate_limited (svc k texts)) \<and> svc N texts = Inr vs \<longrightarrow>
      (result (generate_batch_embeddings svc texts 3) = Inr vs \<longleftrightarrow> N < 3) \<and>
      (N < 3 \<longrightarrow> attempts (generate_batch_embeddings svc texts 3) = N + 1 \<and>
                sleeps (generate_batch_embeddings svc texts 3) = map (\<lambda>k. 2 ^ (k + 1)) [0..<N])) \<and>
   ((\<forall>k<3. rate_limited (svc k texts)) \<longrightarrow>
      attempts (generate_batch_embeddings svc texts 3) = 3 \<and>
      result (generate_batch_embeddings svc texts 3) = Inl (Exception ''Failed after retries'') \<and>
      sleeps (generate_batch_embeddings svc texts 3) = [2, 2 * 2, 2 * 2 * 2] \<and>
      sorted (sleeps (generate_batch_embeddings svc texts 3))) \<and>
   ((\<forall>k<3. rate_limited (api i k (map chunk_text (take BATCH_SIZE (drop i chunks))))) \<longrightarrow>
      process_batch api chunks i st = st)"
proof (intro conjI impI)
  assume h: "(\<forall>k<N. rate_limited (svc k texts)) \<and> svc N texts = Inr vs"
  show "result (generate_batch_embeddings svc texts 3) = Inr vs \<longleftrightarrow> N < 3"
  proof (cases "N < 3")
    case True
    then show ?thesis using retry_then_success [of N svc texts vs] h by simp
  next
    case False
    then have "\<forall>k<3. rate_limited (svc k texts)" using h by simp
    then show ?thesis using retry_three_failures [of svc texts] False by simp
  qed
  assume "N < 3"
  then show "attempts (generate_batch_embeddings svc texts 3) = N + 1"
    and "sleeps (generate_batch_embeddings svc texts 3) = map (\<lambda>k. 2 ^ (k + 1)) [0..<N]"
    using retry_then_success [of N svc texts vs] h by simp_all
next
  assume h: "\<forall>k<3. rate_limited (svc k texts)"
  have r: "generate_batch_embeddings svc texts 3 =
      \<lparr>result = Inl (Exception ''Failed after retries''), sleeps = [2, 4, 8], attempts = 3\<rparr>"
    using h by (rule retry_three_failures [of svc texts])
  show "attempts (generate_batch_embeddings svc texts 3) = 3"
    and "result (generate_batch_embeddings svc texts 3) = Inl (Exception ''Failed after retries'')"
    and "sleeps (generate_batch_embeddings svc texts 3) = [2, 2 * 2, 2 * 2 * 2]"
    and "sorted (sleeps (generate_batch_embeddings svc texts 3))"
    by (simp_all add: r)
next
  assume h: "\<forall>k<3. rate_limited (api i k (map chunk_text (take BATCH_SIZE (drop i chunks))))"
  show "process_batch api chunks i st = st"
    using retry_three_failures [of "api i" "map chunk_text (take BATCH_SIZE (drop i chunks))"] h
    by (simp add: process_batch_def Let_def)
qed

lemma rate_limit_examples:
  "is_rate_limit (ApiError ''429 Too Many Requests'')"
  "is_rate_limit (ApiError ''Quota exceeded'')"
  "\<not> is_rate_limit (ApiError ''connection reset'')"
  by (simp_all add: is_rate_limit_def lower_def lower_char_def)

theorem generate_batch_embeddings_retry_policy_witness:
  "result (generate_batch_embeddings
      (\<lambda>k t. if k < 2 then Inl (ApiError ''429 Too Many Requests'') else Inr [ [1, 0] ])
      [''some text''] 3) = Inr [ [1, 0] ] \<and>
   sleeps (generate_batch_embeddings
      (\<lambda>k t. if k < 2 then Inl (ApiError ''429 Too Many Requests'') else Inr [ [1, 0] ])
      [''some text''] 3) = [2, 4] \<and>
   attempts (generate_batch_embeddings (\<lambda>k t. Inl (ApiError ''Quota exceeded''))
      [''some text''] 3) = 3 \<and>
   process_batch (\<lambda>i k t. Inl (ApiError ''Quota exceeded''))
      [\<lparr>chunk_id = ''c0'', chunk_text = ''some text'', chunk_metadata = ()\<rparr>] 0
      \<lparr>ids = [], embeddings = [], mapping = []\<rparr> = \<lparr>ids = [], embeddings = [], mapping = []\<rparr>"
proof -
  let ?svc = "\<lambda>(k::nat) (t::string list).
    if k < 2 then Inl (ApiError ''429 Too Many Requests'') else Inr [ [1, 0::real] ]"
  let ?bad = "\<lambda>(k::nat) (t::string list). (Inl (ApiError ''Quota exceeded'') :: py_error + vec list)"
  have h1: "(\<forall>k<2. rate_limited (?svc k [''some text''])) \<and> ?svc 2 [''some text''] = Inr [ [1, 0] ]"
    by (simp add: rate_limited_def rate_limit_examples)
  have h2: "\<forall>k<3. rate_limited (?bad k ts)" for ts
    by (simp add: rate_limited_def rate_limit_examples)
  have up: "[0..<2] = [0, Suc 0]"
    by (simp add: numeral_2_eq_2)
  show ?thesis
    using generate_batch_embeddings_retry_policy
            [of 2 ?svc "[''some text'']" "[ [1, 0] ]" "\<lambda>i. ?bad" 0
                "[\<lparr>chunk_id = ''c0'', chunk_text = ''some text'', chunk_metadata = ()\<rparr>]"
                "\<lparr>ids = [], embeddings = [], mapping = []\<rparr>"]
          generate_batch_embeddings_retry_policy
            [of 0 ?bad "[''some text'']" "[]" "\<lambda>i. ?bad" 0 "[]::unit chunk list"
                "\<lparr>ids = [], embeddings = [], mapping = []\<rparr>"]
          h1 h2
    by (simp add: up)
qed

section \<open>The index built by batch\_indexer.py\<close>

lemma store_results_ids:
  "ids (fst (store_results i j cs be st)) = ids st @ map chunk_id (take (length be - j) cs)"
  by (induction cs arbitrary: j st) (auto simp: take_Cons' Suc_diff_Suc)

lemma store_results_embeddings:
  "embeddings (fst (store_results i j cs be st)) = embeddings st @ take (length cs) (drop j be)"
proof (induction cs arbitrary: j st)
  case Nil show ?case by simp
next
  case (Cons c cs)
  show ?case
  proof (cases "j < length be")
    case True
    then have "drop j be = be ! j # drop (Suc j) be" by (simp add: Cons_nth_drop_Suc)
    with True show ?thesis by (simp add: Cons.IH)
  next
    case False then show ?thesis by simp
  qed
qed

lemma process_batch_inv:
  assumes inv: "index_inv api chunks i st" and dvd: "BATCH_SIZE dvd i"
  shows "index_inv api chunks (i + BATCH_SIZE) (process_batch api chunks i st)"
proof (cases "result (generate_batch_embeddings (api i)
                  (map chunk_text (take BATCH_SIZE (drop i chunks))) 3)")
  case (Inl e)
  then have same: "process_batch api chunks i st = st"
    by (simp add: process_batch_def Let_def)
  have "subseq (ids st) (map chunk_id (take i chunks @ take BATCH_SIZE (drop i chunks)))"
    using inv unfolding index_inv_def
    by (simp add: subseq_rev_drop_many)
  then show ?thesis
    using inv unfolding index_inv_def same by (simp add: take_add)
next
  case (Inr be)
  let ?batch = "take BATCH_SIZE (drop i chunks)"
  let ?st = "process_batch api chunks i st"
  let ?n = "min (length ?batch) (length be)"
  have st': "?st = fst (store_results i 0 ?batch be st)"
    using Inr by (simp add: process_batch_def Let_def)
  have ids': "ids ?st = ids st @ map chunk_id (take ?n ?batch)"
    by (simp add: st' store_results_ids min_def)
  have embs': "embeddings ?st = embeddings st @ take ?n be"
    by (simp add: st' store_results_embeddings min_def)
  have len: "length (ids st) = length (embeddings st)"
    using inv by (simp add: index_inv_def)
  have 1: "length (ids ?st) = length (embeddings ?st)"
    by (simp add: ids' embs' len)
  have "subseq (map chunk_id (take ?n ?batch)) (map chunk_id ?batch)"
    by (metis append_take_drop_id map_append prefix_def prefix_imp_subseq)
  then have 2: "subseq (ids ?st) (map chunk_id (take (i + BATCH_SIZE) chunks))"
    using inv unfolding index_inv_def ids'
    by (simp add: take_add list_emb_append_mono)
  have 3: "stored_pair api chunks (ids ?st ! k) (embeddings ?st ! k)" if k: "k < length (ids ?st)" for k
  proof (cases "k < length (ids st)")
    case True
    then show ?thesis
      using inv len unfolding index_inv_def ids' embs' by (simp add: nth_append)
  next
    case False
    define j where "j = k - length (ids st)"
    have j: "j < ?n" using k False unfolding ids' j_def by simp arith
    then have jb: "j < BATCH_SIZE" "i + j < length chunks" "j < length be"
      by (simp_all add: less_diff_conv add.commute)
    have "ids ?st ! k = chunk_id (chunks ! (i + j))"
      using False j jb by (simp add: ids' nth_append j_def [symmetric])
    moreover have "embeddings ?st ! k = take ?n be ! j"
      using False len by (simp add: embs' nth_append j_def)
    then have "embeddings ?st ! k = be ! j"
      using j by simp
    ultimately show ?thesis
      unfolding stored_pair_def using dvd jb Inr by blast
  qed
  show ?thesis
    unfolding index_inv_def using 1 2 3 by blast
qed

lemma batch_loop_inv:
  "index_inv api chunks i st \<Longrightarrow> BATCH_SIZE dvd i \<Longrightarrow>
   index_inv api chunks (length chunks) (batch_loop api chunks i st)"
proof (induction api chunks i st rule: batch_loop.induct)
  case (1 api chunks i st)
  show ?case
  proof (cases "i < length chunks")
    case True
    have "index_inv api chunks (length chunks)
            (batch_loop api chunks (i + BATCH_SIZE) (process_batch api chunks i st))"
      using True "1.prems" by (intro "1.IH" process_batch_inv) auto
    then show ?thesis using True by simp
  next
    case False
    then show ?thesis using "1.prems" by (simp add: index_inv_def)
  qed
qed

text \<open>
  Claim C3. After a run of the indexer over chunks with distinct ids, whatever the
  embedding service answered (batches that failed are skipped, a short answer stores only
  the chunks it covers): the id list and the embedding list have the same length, the
  stored ids are distinct and are a subsequence of the input ids (original order), and at
  every position the stored vector is the one the service returned for the chunk whose id
  is stored at that position.
\<close>

theorem index_ids_vectors_correspond:
  assumes "distinct (map chunk_id chunks)"
  shows "length (ids (indexer_main api chunks)) = length (embeddings (indexer_main api chunks)) \<and>
         distinct (ids (indexer_main api chunks)) \<and>
         subseq (ids (indexer_main api chunks)) (map chunk_id chunks) \<and>
         (\<forall>k<length (ids (indexer_main api chunks)).
            stored_pair api chunks (ids (indexer_main api chunks) ! k)
              (embeddings (indexer_main api chunks) ! k))"
proof -
  have "index_inv api chunks 0 \<lparr>ids = [], embeddings = [], mapping = []\<rparr>"
    by (simp add: index_inv_def)
  then have inv: "index_inv api chunks (length chunks) (indexer_main api chunks)"
    unfolding indexer_main_def by (rule batch_loop_inv) simp
  then have "subseq (ids (indexer_main api chunks)) (map chunk_id chunks)"
    by (simp add: index_inv_def)
  then have "distinct (ids (indexer_main api chunks))"
    using assms by (auto simp: subseq_conv_nths)
  then show ?thesis using inv by (simp add: index_inv_def)
qed


lemma indexer_example:
  "indexer_main (\<lambda>i a ts. Inr [ [1, 0], [0, 1] ])
     [\<lparr>chunk_id = ''c0'', chunk_text = ''first'', chunk_metadata = ()\<rparr>,
      \<lparr>chunk_id = ''c1'', chunk_text = ''second'', chunk_metadata = ()\<rparr>] =
   \<lparr>ids = [''c0'', ''c1''], embeddings = [ [1, 0], [0, 1] ],
    mapping = [\<lparr>me_id = ''c0'', me_text = ''first'', me_metadata = (), embeddingIndex = 0\<rparr>,
               \<lparr>me_id = ''c1'', me_text = ''second'', me_metadata = (), embeddingIndex = 1\<rparr>]\<rparr>"
  by (simp add: indexer_main_def process_batch_def generate_batch_embeddings_def
        BATCH_SIZE_def numeral_3_eq_3)

theorem index_ids_vectors_correspond_witness:
  "distinct (map chunk_id
     [\<lparr>chunk_id = ''c0'', chunk_text = ''first'', chunk_metadata = ()\<rparr>,
      \<lparr>chunk_id = ''c1'', chunk_text = ''second'', chunk_metadata = ()\<rparr>]) \<and>
   ids (indexer_main (\<lambda>i a ts. Inr [ [1, 0], [0, 1] ])
     [\<lparr>chunk_id = ''c0'', chunk_text = ''first'', chunk_metadata = ()\<rparr>,
      \<lparr>chunk_id = ''c1'', chunk_text = ''second'', chunk_metadata = ()\<rparr>]) = [''c0'', ''c1''] \<and>
   stored_pair (\<lambda>i a ts. Inr [ [1, 0], [0, 1] ])
     [\<lparr>chunk_id = ''c0'', chunk_text = ''first'', chunk_metadata = ()\<rparr>,
      \<lparr>chunk_id = ''c1'', chunk_text = ''second'', chunk_metadata = ()\<rparr>] ''c1'' [0, 1]"
proof -
  let ?cs = "[\<lparr>chunk_id = ''c0'', chunk_text = ''first'', chunk_metadata = ()\<rparr>,
      \<lparr>chunk_id = ''c1'', chunk_text = ''second'', chunk_metadata = ()\<rparr>]"
  have d: "distinct (map chunk_id ?cs)" by simp
  from index_ids_vectors_correspond [OF d, of "\<lambda>i a ts. Inr [ [1, 0], [0, 1] ]"]
  show ?thesis
    unfolding indexer_example
    by (auto dest: spec [of _ 1])
qed

section \<open>Similarity search and change detection in diff\_analysis.py\<close>

text \<open>
  Claim C1. For a guideline chunk whose textbook context was found and is usable (so that
  the classification oracle is called): if the oracle call raises, or the response text
  does not parse as JSON after \<open>strip\<close> and the removal of the code-fence markers,
  \<open>analyze_chunk\<close> returns \<open>{"has_shift": false}\<close>, and the loop of \<open>main\<close> goes on to the
  next chunk with the list of trends unchanged: no trend record for the chunk, no abort.
\<close>

theorem oracle_failure_is_no_shift:
  assumes "find_relevant_textbook_chunks ev files i vdb chunk = (Inr ctx, vdb')"
    and "ctx \<noteq> []" and "\<not> py_in ''unavailable'' ctx"
    and "oracle_unusable ev i chunk ctx"
  shows "analyze_chunk ev files i vdb chunk = (Inr no_shift, vdb') \<and>
         analysis_loop ev files i (chunk # rest) (found, vdb) =
           analysis_loop ev files (Suc i) rest (found, vdb')"
proof -
  have a: "analyze_chunk ev files i vdb chunk = (Inr no_shift, vdb')"
    using assms by (auto simp: analyze_chunk_def oracle_unusable_def split: sum.splits option.splits)
  then show ?thesis by (simp add: no_shift_def)
qed

lemma np_norm_zeros: "np_norm ev (replicate n 0) = Num 0"
  by (simp add: np_norm_def)

lemma zero_query_search:
  "vectors \<noteq> [] \<Longrightarrow> np_norm ev q = Num 0 \<Longrightarrow> similarity_search ev vectors q k = Inr []"
  by (simp add: similarity_search_def)

lemma empty_index_search: "similarity_search ev [] q k = Inl AxisError"
  by (simp add: similarity_search_def)

lemma load_empty_index:
  "load_vector_db \<lparr>embeddings_file = Some ([], []), mapping_file = Some []\<rparr> =
     Inr (Some \<lparr>db_ids = [], db_embeddings = [], db_texts = Map.empty\<rparr>)"
  by (simp add: load_vector_db_def np_array_def)

text \<open>
  Claim C7, at the failing input. With an index that exists and is empty
  (\<open>embeddings.json\<close> holds no ids and no vectors) and at least one guideline chunk,
  \<open>main\<close> aborts with the AxisError that \<open>np.linalg.norm(vectors, axis=1)\<close> raises on the
  one-dimensional empty array: no chunk is skipped and no report is written. (When the
  index is unavailable, the run does end with an empty report:
  \<open>unavailable_baseline_report\<close>.)
\<close>

theorem empty_baseline_aborts:
  "diff_main ev \<lparr>embeddings_file = Some ([], []), mapping_file = Some []\<rparr> (Some (chunk # rest)) =
     Inl AxisError"
  by (simp add: diff_main_def analyze_chunk_def find_relevant_textbook_chunks_def
        load_empty_index empty_index_search)

lemma unavailable_loop:
  "embeddings_file files = None \<or> mapping_file files = None \<Longrightarrow>
   analysis_loop ev files i chunks (found, None) = Inr (found, None)"
proof (induction chunks arbitrary: i)
  case Nil
  show ?case by simp
next
  case (Cons c cs)
  have "load_vector_db files = Inr None"
    using Cons.prems by (auto simp: load_vector_db_def split: option.splits)
  then have "analyze_chunk ev files i None c = (Inr no_shift, None)"
    by (simp add: analyze_chunk_def find_relevant_textbook_chunks_def)
  then show ?case using Cons by (simp add: no_shift_def)
qed

lemma unavailable_baseline_report:
  "embeddings_file files = None \<or> mapping_file files = None \<Longrightarrow>
   diff_main ev files (Some chunks) =
     Inr (Some \<lparr>total_trends = 0, sources_analyzed = {}, trends = []\<rparr>)"
  by (simp add: diff_main_def unavailable_loop)

text \<open>
  Claim C8, at the failing input. When the embedding call fails, the query is the vector
  of 768 zeros; on an index that is empty the norms of the stored vectors are taken before
  the zero test of the query, so the search raises AxisError instead of returning an
  empty result, and the run aborts. (On an index that is not empty the zero query does
  give the empty result: \<open>zero_query_search\<close>.)
\<close>

theorem zero_query_on_empty_index_aborts:
  "embed_content ev 0 (chunk_text chunk) = Inl e \<Longrightarrow>
   get_embedding ev 0 (chunk_text chunk) = replicate 768 0 \<and>
   similarity_search ev [] (get_embedding ev 0 (chunk_text chunk)) 3 = Inl AxisError \<and>
   find_relevant_textbook_chunks ev \<lparr>embeddings_file = Some ([], []), mapping_file = Some []\<rparr>
      0 None chunk = (Inl AxisError, Some \<lparr>db_ids = [], db_embeddings = [], db_texts = Map.empty\<rparr>) \<and>
   analysis_loop ev \<lparr>embeddings_file = Some ([], []), mapping_file = Some []\<rparr> 0 (chunk # rest)
      ([], None) = Inl AxisError"
  by (simp add: get_embedding_def analyze_chunk_def find_relevant_textbook_chunks_def
        load_empty_index empty_index_search)

text \<open>
  Claim C10, amended. When the single-item embedding call fails, \<open>get_embedding\<close> returns
  exactly 768 zeros, whatever the dimension of the index. For every loaded index with at
  least one stored vector, of any dimension, the search with that vector returns the
  empty result (the zero test of the query norm comes before the product with the stored
  vectors), the context is the empty string, and the chunk is skipped.
\<close>

theorem zero_vector_skip_any_dimension:
  assumes "embed_content ev i (chunk_text chunk) = Inl e" and "db_embeddings db \<noteq> []"
  shows "get_embedding ev i (chunk_text chunk) = replicate 768 0 \<and>
         similarity_search ev (db_embeddings db) (get_embedding ev i (chunk_text chunk)) 3 = Inr [] \<and>
         find_relevant_textbook_chunks ev files i (Some db) chunk = (Inr [], Some db) \<and>
         analyze_chunk ev files i (Some db) chunk = (Inr no_shift, Some db)"
  using assms
  by (simp add: get_embedding_def analyze_chunk_def find_relevant_textbook_chunks_def
        zero_query_search np_norm_zeros)

lemma example_load: "load_vector_db example_files = Inr (Some example_db)"
  by (simp add: load_vector_db_def example_files_def example_db_def np_array_def)

lemma example_norms:
  "np_norm (example_env emb resp) [1, 0] = Num 1"
  "np_norm (example_env emb resp) [0, 1] = Num 1"
  by (simp_all add: np_norm_def example_env_def exact_norm_def)

lemma example_search:
  "similarity_search (example_env emb resp) [ [1, 0], [0, 1] ] [1, 0] 3 =
     Inr [(0, Num 1), (1, Num 0)]"
  by (simp add: similarity_search_def example_norms argsort_def Let_def
        upt_rec [of 0] upt_rec [of 1])
     (simp add: example_env_def exact_dot_def)

lemma example_context:
  "find_relevant_textbook_chunks (example_env (Inr [1, 0]) resp) example_files 0 None example_chunk =
     (Inr (''--- MATCH (Score: 1.00) ---'' @ [CHR 10] @ ''COPD staging'' @ [CHR 10, CHR 10] @
           ''--- MATCH (Score: 0.00) ---'' @ [CHR 10] @ ''Asthma control''), Some example_db)"
proof -
  have g: "get_embedding (example_env (Inr [1, 0]) resp) 0 (chunk_text example_chunk) = [1, 0]"
    by (simp add: get_embedding_def example_env_def)
  have d: "db_embeddings example_db = [ [1, 0], [0, 1] ]"
    by (simp add: example_db_def)
  have b: "build_context (example_env (Inr [1, 0]) resp) example_db [(0, Num 1), (Suc 0, Num 0)] =
             Inr [''--- MATCH (Score: 1.00) ---'' @ [CHR 10] @ ''COPD staging'',
                  ''--- MATCH (Score: 0.00) ---'' @ [CHR 10] @ ''Asthma control'']"
    by (simp add: example_db_def example_env_def)
  show ?thesis
    by (simp add: find_relevant_textbook_chunks_def example_load g d example_search b
          del: build_context.simps)
qed

lemma argsort_props:
  "sorted_wrt (\<lambda>a b. score_key (scores ! a) \<le> score_key (scores ! b)) (argsort ev scores)"
  "set (argsort ev scores) = {0..<length scores}"
  "distinct (argsort ev scores)"
  "length (argsort ev scores) = length scores"
proof -
  let ?f = "\<lambda>i. (score_key (scores ! i), argsort_ties ev scores i)"
  have "sorted (map ?f (argsort ev scores))"
    by (simp add: argsort_def)
  then have "sorted_wrt (\<lambda>a b. ?f a \<le> ?f b) (argsort ev scores)"
    by (simp add: sorted_map)
  then show "sorted_wrt (\<lambda>a b. score_key (scores ! a) \<le> score_key (scores ! b)) (argsort ev scores)"
    by (rule sorted_wrt_mono_rel [rotated]) auto
  show "set (argsort ev scores) = {0..<length scores}"
    by (simp add: argsort_def)
  show "distinct (argsort ev scores)"
    by (simp add: argsort_def)
  show "length (argsort ev scores) = length scores"
    by (simp add: argsort_def)
qed

lemma position_of_nth:
  assumes "distinct p" and "a < length p"
  shows "length (takeWhile (\<lambda>x. x \<noteq> p ! a) p) = a"
proof -
  have "takeWhile (\<lambda>x. x \<noteq> p ! a) p = take a p"
  proof (rule takeWhile_eq_take_P_nth)
    fix i assume "i < a" "i < length p"
    then show "p ! i \<noteq> p ! a"
      using assms by (simp add: nth_eq_iff_index_eq)
  next
    show "\<not> p ! a \<noteq> p ! a" by simp
  qed
  then show ?thesis using assms(2) by simp
qed

text \<open>
  Every list of the positions that is in ascending order of the entries is the result of
  \<open>argsort\<close> for some order among equal entries: the model of \<open>np.argsort\<close> leaves out no
  behaviour of an unstable sort.
\<close>

lemma argsort_any_order:
  assumes perm: "distinct p" "set p = {0..<length scores}"
    and asc: "sorted (map (\<lambda>i. score_key (scores ! i)) p)"
  shows "argsort (ev\<lparr>argsort_ties := \<lambda>scores i. length (takeWhile (\<lambda>x. x \<noteq> i) p)\<rparr>) scores = p"
proof -
  let ?pos = "\<lambda>i. length (takeWhile (\<lambda>x. x \<noteq> i) p)"
  let ?f = "\<lambda>i. (score_key (scores ! i), ?pos i)"
  let ?A = "sort_key ?f [0..<length scores]"
  have pos: "?pos (p ! a) = a" if "a < length p" for a
    using perm(1) that by (rule position_of_nth)
  have inj: "inj_on ?f (set p)"
  proof (rule inj_onI)
    fix x y assume "x \<in> set p" "y \<in> set p" "?f x = ?f y"
    then obtain a b where "a < length p" "b < length p" "x = p ! a" "y = p ! b" "?pos x = ?pos y"
      by (auto simp: in_set_conv_nth)
    then show "x = y" using pos by simp
  qed
  have "?f (p ! a) \<le> ?f (p ! b)" if ab: "a < b" "b < length p" for a b
  proof -
    have "score_key (scores ! (p ! a)) \<le> score_key (scores ! (p ! b))"
      using asc ab by (simp add: sorted_iff_nth_mono)
    moreover have "?pos (p ! a) \<le> ?pos (p ! b)"
      using ab pos by simp
    ultimately show ?thesis by simp
  qed
  then have "sorted_wrt (\<lambda>x y. ?f x \<le> ?f y) p"
    unfolding sorted_wrt_iff_nth_less by blast
  then have sp: "sorted (map ?f p)"
    by (simp only: sorted_map)
  have dp: "distinct (map ?f p)"
    using perm(1) inj by (simp add: distinct_map)
  have sA: "sorted (map ?f ?A)"
    by simp
  have setA: "set ?A = set p"
    using perm(2) by simp
  have dA: "distinct (map ?f ?A)"
    using inj setA by (simp add: distinct_map)
  have "map ?f ?A = map ?f p"
    using sA dA sp dp setA by (intro sorted_distinct_set_unique) simp_all
  then have "?A = p"
    using inj setA by (simp add: inj_on_map_eq_map)
  then show ?thesis by (simp add: argsort_def)
qed

lemma scores_nth:
  assumes "i < length vectors"
  shows "map (\<lambda>(row, n). f32_div ev (f32_dot ev row q) (f32_mul ev n (np_norm ev q)))
           (zip vectors (map (np_norm ev) vectors)) ! i = cosine_score ev (vectors ! i) q"
  using assms by (simp add: cosine_score_def)

lemma top_indices_props:
  fixes ev :: env and scores :: "score list" and k :: nat
  defines "T \<equiv> take k (rev (argsort ev scores))"
  shows "length T = min k (length scores)"
    and "sorted_wrt (\<lambda>a b. score_key (scores ! b) \<le> score_key (scores ! a)) T"
    and "distinct T"
    and "set T \<subseteq> {0..<length scores}"
    and "\<forall>j<length scores. j \<notin> set T \<longrightarrow>
           (\<forall>i\<in>set T. score_key (scores ! j) \<le> score_key (scores ! i))"
proof -
  let ?A = "argsort ev scores"
  let ?f = "\<lambda>i. score_key (scores ! i)"
  show "length T = min k (length scores)"
    by (simp add: T_def argsort_props min.commute)
  have desc: "sorted_wrt (\<lambda>a b. ?f b \<le> ?f a) (rev ?A)"
    using argsort_props(1) [of scores ev] by (simp add: sorted_wrt_rev)
  then show "sorted_wrt (\<lambda>a b. ?f b \<le> ?f a) T"
    unfolding T_def by (rule sorted_wrt_take)
  show "distinct T"
    unfolding T_def using argsort_props(3) [of ev scores] by simp
  show "set T \<subseteq> {0..<length scores}"
    unfolding T_def using set_take_subset [of k "rev ?A"] argsort_props(2) [of ev scores] by auto
  show "\<forall>j<length scores. j \<notin> set T \<longrightarrow> (\<forall>i\<in>set T. ?f j \<le> ?f i)"
  proof (intro allI impI ballI)
    fix j i assume j: "j < length scores" "j \<notin> set T" and i: "i \<in> set T"
    have "j \<in> set (rev ?A)" using j(1) argsort_props(2) [of ev scores] by simp
    then have "j \<in> set (take k (rev ?A)) \<union> set (drop k (rev ?A))"
      by (metis append_take_drop_id set_append)
    then have jd: "j \<in> set (drop k (rev ?A))" using j(2) by (simp add: T_def)
    have "sorted_wrt (\<lambda>a b. ?f b \<le> ?f a) (take k (rev ?A) @ drop k (rev ?A))"
      using desc by simp
    then show "?f j \<le> ?f i"
      using jd i unfolding T_def sorted_wrt_append by blast
  qed
qed

text \<open>
  Claim C6, amended. Whenever the search returns (the index is not empty and its vectors
  have the length of the query), the result has at most \<open>k\<close> pairs of a position and the
  cosine score computed for it, each position once, exactly \<open>min k n\<close> pairs when the
  computed norm of the query is not zero; the scores are in descending order of NumPy's
  sort (\<open>nan\<close> above \<open>inf\<close> above every number), and every position left out scores no
  higher than those returned. Nothing is said of the order among equal scores: that
  order is the one the sort of the environment leaves, reversed, and is not determined
  by the positions (\<open>similarity_search_ties_any_order\<close>).
\<close>

theorem similarity_search_order:
  assumes "similarity_search ev vectors q k = Inr ms"
  shows "length ms \<le> k \<and>
         (np_norm ev q \<noteq> Num 0 \<longrightarrow> length ms = min k (length vectors)) \<and>
         sorted_wrt (\<lambda>(i, s) (j, t). score_key t \<le> score_key s) ms \<and>
         distinct (map fst ms) \<and>
         (\<forall>(i, s)\<in>set ms. i < length vectors \<and> s = cosine_score ev (vectors ! i) q) \<and>
         (\<forall>j<length vectors. j \<notin> fst ` set ms \<longrightarrow>
            (\<forall>(i, s)\<in>set ms. score_key (cosine_score ev (vectors ! j) q) \<le> score_key s))"
proof (cases "np_norm ev q = Num 0")
  case True
  then have "ms = []"
    using assms by (auto simp: similarity_search_def split: if_splits)
  then show ?thesis using True by simp
next
  case False
  define scores where "scores =
    map (\<lambda>(row, n). f32_div ev (f32_dot ev row q) (f32_mul ev n (np_norm ev q)))
      (zip vectors (map (np_norm ev) vectors))"
  define T where "T = take k (rev (argsort ev scores))"
  have len: "length scores = length vectors"
    by (simp add: scores_def)
  have nth: "scores ! i = cosine_score ev (vectors ! i) q" if "i < length vectors" for i
    unfolding scores_def using that by (rule scores_nth)
  have ms: "ms = map (\<lambda>idx. (idx, scores ! idx)) T"
    using assms False
    by (auto simp: similarity_search_def Let_def scores_def T_def split: if_splits)
  note tp = top_indices_props [where scores = scores and k = k and ev = ev, folded T_def]
  have 1: "length ms = min k (length vectors)"
    by (simp add: ms tp(1) len)
  have 2: "sorted_wrt (\<lambda>(i, s) (j, t). score_key t \<le> score_key s) ms"
    using tp(2) by (simp add: ms sorted_wrt_map)
  have 3: "distinct (map fst ms)"
    using tp(3) by (simp add: ms comp_def)
  have 4: "\<forall>(i, s)\<in>set ms. i < length vectors \<and> s = cosine_score ev (vectors ! i) q"
    using tp(4) len nth by (auto simp: ms)
  have fst: "fst ` set ms = set T"
    by (force simp: ms)
  have 5: "\<forall>j<length vectors. j \<notin> fst ` set ms \<longrightarrow>
            (\<forall>(i, s)\<in>set ms. score_key (cosine_score ev (vectors ! j) q) \<le> score_key s)"
    unfolding fst using tp(5) len nth by (auto simp: ms)
  show ?thesis using 1 2 3 4 5 by simp
qed

theorem similarity_search_order_witness:
  "similarity_search (example_env (Inr [1, 0]) (Inr [])) [ [1, 0], [0, 1] ] [1, 0] 3 =
     Inr [(0, Num 1), (1, Num 0)] \<and>
   length [(0::nat, Num 1), (1, Num 0)] \<le> 3 \<and>
   cosine_score (example_env (Inr [1, 0]) (Inr [])) ([ [1, 0], [0, 1] ] ! 1) [1, 0] = Num 0"
  using similarity_search_order [OF example_search, of "Inr [1, 0]" "Inr []"]
  by (simp add: example_search)

theorem similarity_search_ties_counterexample:
  "similarity_search (example_env (Inr [1, 0]) (Inr [])) [ [1, 0], [1, 0] ] [1, 0] 3 =
     Inr [(1, Num 1), (0, Num 1)]"
  by (simp add: similarity_search_def example_norms argsort_def Let_def
        upt_rec [of 0] upt_rec [of 1])
     (simp add: example_env_def exact_dot_def)

lemma similarity_search_ties_any_order:
  "similarity_search ((example_env (Inr [1, 0]) (Inr [])) \<lparr>argsort_ties := \<lambda>scores i. 1 - i\<rparr>)
     [ [1, 0], [1, 0] ] [1, 0] 3 = Inr [(0, Num 1), (1, Num 1)]"
  by (simp add: similarity_search_def np_norm_def argsort_def Let_def
        upt_rec [of 0] upt_rec [of 1])
     (simp add: example_env_def exact_dot_def exact_norm_def)

lemma example_context_checks:
  "''--- MATCH (Score: 1.00) ---'' @ [CHR 10] @ ''COPD staging'' @ [CHR 10, CHR 10] @
   ''--- MATCH (Score: 0.00) ---'' @ [CHR 10] @ ''Asthma control'' \<noteq> []"
  "\<not> py_in ''unavailable''
     (''--- MATCH (Score: 1.00) ---'' @ [CHR 10] @ ''COPD staging'' @ [CHR 10, CHR 10] @
      ''--- MATCH (Score: 0.00) ---'' @ [CHR 10] @ ''Asthma control'')"
  by simp_all

lemma strip_fences_example: "strip_fences ''```json not json ```'' = '' not json ''"
  by (simp add: strip_fences_def strip_def is_space_def)

theorem oracle_failure_is_no_shift_witness:
  "analyze_chunk (example_env (Inr [1, 0]) (Inr ''```json not json ```'')) example_files 0 None
     example_chunk = (Inr no_shift, Some example_db) \<and>
   analyze_chunk (example_env (Inr [1, 0]) (Inl (ApiError ''503 unavailable''))) example_files 0 None
     example_chunk = (Inr no_shift, Some example_db) \<and>
   analysis_loop (example_env (Inr [1, 0]) (Inr ''```json not json ```'')) example_files 0
     [example_chunk] ([], None) = Inr ([], Some example_db)"
proof -
  let ?ctx = "''--- MATCH (Score: 1.00) ---'' @ [CHR 10] @ ''COPD staging'' @ [CHR 10, CHR 10] @
              ''--- MATCH (Score: 0.00) ---'' @ [CHR 10] @ ''Asthma control''"
  have u1: "oracle_unusable (example_env (Inr [1, 0]) (Inr ''```json not json ```'')) 0
              example_chunk ?ctx"
    by (simp add: oracle_unusable_def example_env_def strip_fences_example)
  have u2: "oracle_unusable (example_env (Inr [1, 0]) (Inl (ApiError ''503 unavailable''))) 0
              example_chunk ?ctx"
    by (simp add: oracle_unusable_def example_env_def)
  show ?thesis
    using oracle_failure_is_no_shift
            [OF example_context example_context_checks u1, of "[]" "[]"]
          oracle_failure_is_no_shift
            [OF example_context example_context_checks u2, of "[]" "[]"]
    by (simp del: analysis_loop.simps(2))
qed

theorem zero_vector_skip_any_dimension_witness:
  "embed_content (example_env (Inl (ApiError ''500'')) (Inr [])) 0 (chunk_text example_chunk) =
     Inl (ApiError ''500'') \<and>
   db_embeddings example_db \<noteq> [] \<and>
   analyze_chunk (example_env (Inl (ApiError ''500'')) (Inr [])) example_files 0 (Some example_db)
     example_chunk = (Inr no_shift, Some example_db)"
proof -
  have e: "embed_content (example_env (Inl (ApiError ''500'')) (Inr [])) 0 (chunk_text example_chunk) =
     Inl (ApiError ''500'')"
    by (simp add: example_env_def)
  have d: "db_embeddings example_db \<noteq> []"
    by (simp add: example_db_def)
  show ?thesis
    using zero_vector_skip_any_dimension [OF e d, of example_files] e d by simp
qed

theorem fallback_dimension_counterexample:
  "length (hd (db_embeddings example_db)) = 2 \<and>
   length (get_embedding (example_env (Inl (ApiError ''500'')) (Inr [])) 0
             (chunk_text example_chunk)) = 768 \<and>
   find_relevant_textbook_chunks (example_env (Inl (ApiError ''500'')) (Inr [])) example_files 0
     (Some example_db) example_chunk = (Inr [], Some example_db) \<and>
   analysis_loop (example_env (Inl (ApiError ''500'')) (Inr [])) example_files 0 [example_chunk]
     ([], Some example_db) = Inr ([], Some example_db)"
  by (simp add: example_db_def get_embedding_def example_env_def analyze_chunk_def
        find_relevant_textbook_chunks_def zero_query_search np_norm_zeros no_shift_def)

theorem empty_baseline_aborts_witness:
  \<open>diff_main (example_env (Inr [1, 0]) (Inr ''{"has_shift": false}''))
     \<lparr>embeddings_file = Some ([], []), mapping_file = Some []\<rparr> (Some [example_chunk]) =
     Inl AxisError\<close>
  by (rule empty_baseline_aborts)

theorem zero_query_on_empty_index_aborts_witness:
  "similarity_search (example_env (Inl (ApiError ''500'')) (Inr [])) []
     (get_embedding (example_env (Inl (ApiError ''500'')) (Inr [])) 0 (chunk_text example_chunk)) 3 =
     Inl AxisError \<and>
   analysis_loop (example_env (Inl (ApiError ''500'')) (Inr []))
     \<lparr>embeddings_file = Some ([], []), mapping_file = Some []\<rparr> 0 [example_chunk] ([], None) =
     Inl AxisError"
proof -
  have e: "embed_content (example_env (Inl (ApiError ''500'')) (Inr [])) 0 (chunk_text example_chunk) =
     Inl (ApiError ''500'')"
    by (simp add: example_env_def)
  show ?thesis
    using zero_query_on_empty_index_aborts [OF e, of "[]"] by blast
qed

section \<open>The segmenter of guideline\_ingester.py\<close>



lemma new_chunk_topic: "md_topic (chunk_metadata (new_chunk source label n part)) = label"
  by (simp add: new_chunk_def)










lemma preamble_in_fallback_example:
  "length example_long_preamble = 214 \<and>
   chunk_by_headers (example_long_preamble @ [CHR 10] @ ''1.1 Dosing'' @ [CHR 10] @ ''short'')
     ''data/guidelines/gold.pdf'' =
     Inr [new_chunk ''data/guidelines/gold.pdf'' ''Section 1'' 0
            (example_long_preamble @ '' 1.1 Dosing short'')]"
  by code_simp



end
